theory Spec2Isabelle
  imports Complex_Main
begin

section \<open>Data model (src/types.ts)\<close>

text \<open>
  A JavaScript number is a binary64 value. The finite ones are modelled as the real numbers
  they denote: comparisons of finite values are then exact, and each arithmetic operation
  is the exact operation followed by the rounding \<open>fl\<close> of the next section. NaN and
  the infinities are not represented.
\<close>

record Point =
  x :: real
  y :: real

text \<open>A landmark of the estimator is a point with a depth component.\<close>

record Landmark = Point +
  z :: real

record DrawingPath =
  points :: "Point list"
  color :: string
  width :: real

datatype GestureMode = DRAWING | HOVERING | IDLE

section \<open>Binary64 arithmetic\<close>

text \<open>
  Rounding to the nearest integer, a tie going to the even one.
\<close>

definition roundTiesToEven :: "real \<Rightarrow> int" where
  "roundTiesToEven r =
     (let n = \<lfloor>r\<rfloor>; d = r - of_int n
      in if d < 1 / 2 then n
         else if 1 / 2 < d then n + 1
         else if even n then n else n + 1)"

text \<open>
  Rounding a positive real to 53 significant bits: the value is scaled by powers of two into
  the interval from \<open>2 ^ 52\<close> to \<open>2 ^ 53\<close>, where the representable values are the
  integers, rounded there and scaled back.
\<close>

function round53 :: "real \<Rightarrow> real" where
  "round53 r =
     (if r \<le> 0 then 0
      else if 2 ^ 53 \<le> r then 2 * round53 (r / 2)
      else if r < 2 ^ 52 then round53 (2 * r) / 2
      else of_int (roundTiesToEven r))"
  by pat_completeness auto
termination
proof (relation "measures [\<lambda>r. if 2 ^ 53 \<le> r then nat \<lceil>r\<rceil> else 0,
                           \<lambda>r. nat \<lceil>2 ^ 53 / r\<rceil>]")
  show "wf (measures [\<lambda>r::real. if 2 ^ 53 \<le> r then nat \<lceil>r\<rceil> else 0,
                      \<lambda>r. nat \<lceil>2 ^ 53 / r\<rceil>])"
    by simp
next
  fix r :: real
  assume "\<not> r \<le> 0" and big: "2 ^ 53 \<le> r"
  have "r / 2 \<le> r - 1" using big by simp
  then have "\<lceil>r / 2\<rceil> \<le> \<lceil>r - 1\<rceil>" by (rule ceiling_mono)
  then have "\<lceil>r / 2\<rceil> < \<lceil>r\<rceil>" by simp
  moreover have "0 < \<lceil>r\<rceil>" using big by (simp add: less_ceiling_iff)
  ultimately show "(r / 2, r) \<in> measures [\<lambda>r. if 2 ^ 53 \<le> r then nat \<lceil>r\<rceil> else 0,
                                          \<lambda>r. nat \<lceil>2 ^ 53 / r\<rceil>]"
    using big by auto
next
  fix r :: real
  assume pos: "\<not> r \<le> 0" and "\<not> 2 ^ 53 \<le> r" and small: "r < 2 ^ 52"
  define a where "a = 2 ^ 53 / r"
  have a: "2 \<le> a" using pos small by (simp add: a_def le_divide_eq)
  then have "a / 2 \<le> a - 1" by simp
  then have "\<lceil>a / 2\<rceil> \<le> \<lceil>a - 1\<rceil>" by (rule ceiling_mono)
  then have "\<lceil>a / 2\<rceil> < \<lceil>a\<rceil>" by simp
  moreover have "0 < \<lceil>a\<rceil>" using a by (simp add: less_ceiling_iff)
  moreover have "2 ^ 53 / (2 * r) = a / 2" "2 ^ 53 / r = a" by (simp_all add: a_def)
  ultimately show "(2 * r, r) \<in> measures [\<lambda>r. if 2 ^ 53 \<le> r then nat \<lceil>r\<rceil> else 0,
                                          \<lambda>r. nat \<lceil>2 ^ 53 / r\<rceil>]"
    using small pos by auto
qed

declare round53.simps [simp del]

text \<open>
  The binary64 value of an exact result \<open>r\<close>, rounding to nearest, ties to even. Below
  \<open>1 / 2 ^ 1022\<close> the representable values are the multiples of \<open>1 / 2 ^ 1074\<close>
  (subnormal numbers); above, they have 53 significant bits. An exact result whose magnitude
  reaches \<open>2 ^ 1024 - 2 ^ 970\<close> becomes an infinity in binary64, which is not
  represented here: \<open>fl\<close> is the arithmetic of the program for the results that satisfy
  \<open>finite64\<close>.
\<close>

definition fl :: "real \<Rightarrow> real" where
  "fl r =
     (if \<bar>r\<bar> < 1 / 2 ^ 1022 then of_int (roundTiesToEven (r * 2 ^ 1074)) / 2 ^ 1074
      else if r < 0 then - round53 (- r)
      else round53 r)"

definition finite64 :: "real \<Rightarrow> bool" where
  "finite64 r \<longleftrightarrow> \<bar>r\<bar> < 2 ^ 1024 - 2 ^ 970"

text \<open>The constant \<^verbatim>\<open>Math.PI\<close>: the binary64 value nearest to \<open>\<pi>\<close>.\<close>

definition Math_PI :: real where
  "Math_PI = 884279719003555 / 2 ^ 48"

section \<open>The environment of the component\<close>

text \<open>
  A canvas element has a pixel size; \<open>context2d\<close> tells whether
  \<^verbatim>\<open>getContext('2d')\<close> yields a context (it yields null otherwise). The pixel
  sizes of a canvas element are unsigned 32-bit integers, which binary64 holds exactly.
\<close>

record Canvas =
  canvas_width :: nat
  canvas_height :: nat
  context2d :: bool

text \<open>
  The calls issued on a 2D rendering context, in the order they are issued. The two drawing
  helpers of the estimator's library are kept as opaque calls.
\<close>

datatype call =
    Save
  | Restore
  | ClearRect real real real real
  | Translate real real
  | Scale real real
  | StrokeStyle string
  | LineWidth real
  | LineCap string
  | LineJoin string
  | BeginPath
  | MoveTo real real
  | LineTo real real
  | Stroke
  | Arc real real real real real
  | FillStyle string
  | Fill
  | DrawConnectors "Landmark list" string real
  | DrawLandmarks "Landmark list" string real real

text \<open>
  The result object of the estimator: \<open>multiHandLandmarks\<close> is absent (\<open>None\<close>) or a
  list of landmark lists, one per detected hand.
\<close>

record Results =
  multiHandLandmarks :: "Landmark list list option"

datatype error = TypeError

text \<open>
  The state and refs of the component \<^verbatim>\<open>App\<close> (src/App.tsx, lines 7 to 24) that the
  drawing pipeline reads and writes, together with the calls issued so far on the context of
  the main canvas and of the overlay canvas.
\<close>

record App =
  brushColor :: string
  brushWidth :: real
  gestureMode :: GestureMode
  analysis :: "string option"
  colorRef :: string
  widthRef :: real
  canvasRef :: "Canvas option"
  overlayCanvasRef :: "Canvas option"
  pathsRef :: "DrawingPath list"
  currentPathRef :: "Point list"
  canvasCalls :: "call list"
  overlayCalls :: "call list"

text \<open>The component as first rendered, with the two canvas elements it mounts.\<close>

definition initial :: "Canvas option \<Rightarrow> Canvas option \<Rightarrow> App" where
  "initial cv ov =
     \<lparr>brushColor = ''#ffffff'', brushWidth = 5, gestureMode = IDLE, analysis = None,
      colorRef = ''#ffffff'', widthRef = 5, canvasRef = cv, overlayCanvasRef = ov,
      pathsRef = [], currentPathRef = [], canvasCalls = [], overlayCalls = []\<rparr>"

text \<open>
  Setting the brush colour or width: the state changes and the effect of lines 27 to 33
  copies the new value into the ref.
\<close>

definition setBrushColor :: "string \<Rightarrow> App \<Rightarrow> App" where
  "setBrushColor c s = s\<lparr>brushColor := c, colorRef := c\<rparr>"

definition setBrushWidth :: "real \<Rightarrow> App \<Rightarrow> App" where
  "setBrushWidth w s = s\<lparr>brushWidth := w, widthRef := w\<rparr>"

section \<open>Rendering the persistent layer (renderMainCanvas, lines 35 to 54)\<close>

text \<open>
  The body of the \<^verbatim>\<open>forEach\<close> callback: the calls one path contributes. A path of
  fewer than two points returns at once; the loop over \<open>i\<close> runs from 1 to the last index.
\<close>

definition renderPath :: "DrawingPath \<Rightarrow> call list" where
  "renderPath path =
     (if length (points path) < 2 then []
      else [StrokeStyle (color path), LineWidth (width path),
            LineCap ''round'', LineJoin ''round'', BeginPath,
            MoveTo (x (points path ! 0)) (y (points path ! 0))]
           @ map (\<lambda>i. LineTo (x (points path ! i)) (y (points path ! i)))
               [1 ..< length (points path)]
           @ [Stroke])"

definition renderMainCanvas :: "App \<Rightarrow> App" where
  "renderMainCanvas s =
     (case canvasRef s of
        None \<Rightarrow> s
      | Some cv \<Rightarrow>
          if \<not> context2d cv then s
          else s\<lparr>canvasCalls := canvasCalls s
                    @ [ClearRect 0 0 (real (canvas_width cv)) (real (canvas_height cv))]
                    @ concat (map renderPath (pathsRef s))\<rparr>)"

section \<open>Finalizing the live stroke (finishPath, lines 56 to 66)\<close>

definition finishPath :: "App \<Rightarrow> App" where
  "finishPath s =
     (if length (currentPathRef s) > 0
      then renderMainCanvas
             (s\<lparr>pathsRef := pathsRef s
                    @ [\<lparr>points = currentPathRef s, color = colorRef s, width = widthRef s\<rparr>],
                currentPathRef := []\<rparr>)
      else s)"

section \<open>The live segment (drawLive, lines 68 to 85)\<close>

definition drawLive :: "App \<Rightarrow> App" where
  "drawLive s =
     (case canvasRef s of
        None \<Rightarrow> s
      | Some cv \<Rightarrow>
          if \<not> context2d cv \<or> length (currentPathRef s) < 2 then s
          else
            let pts = currentPathRef s;
                prev = pts ! (length pts - 2);
                current = pts ! (length pts - 1)
            in s\<lparr>canvasCalls := canvasCalls s
                   @ [StrokeStyle (colorRef s), LineWidth (widthRef s),
                      LineCap ''round'', LineJoin ''round'', BeginPath,
                      MoveTo (x prev) (y prev), LineTo (x current) (y current), Stroke]\<rparr>)"

section \<open>One estimator result (onResults, lines 87 to 141)\<close>

text \<open>
  Reading index \<open>i\<close> of a JavaScript array gives \<^verbatim>\<open>undefined\<close> out of range; reading
  a property of \<^verbatim>\<open>undefined\<close> throws a TypeError.
\<close>

definition at_index :: "'a list \<Rightarrow> nat \<Rightarrow> 'a option" where
  "at_index xs i = (if i < length xs then Some (xs ! i) else None)"

definition overlay :: "call list \<Rightarrow> App \<Rightarrow> App" where
  "overlay cs s = s\<lparr>overlayCalls := overlayCalls s @ cs\<rparr>"

text \<open>
  Lines 100 and 101: a hand is present when \<open>multiHandLandmarks\<close> is there and not
  empty, and its first entry is the landmark set that is used.
\<close>

definition detectedHand :: "Results \<Rightarrow> Landmark list option" where
  "detectedHand results =
     (case multiHandLandmarks results of
        None \<Rightarrow> None
      | Some hands \<Rightarrow> if length hands > 0 then Some (hands ! 0) else None)"

text \<open>
  The result is \<open>Inr\<close> the state after the callback has returned, or \<open>Inl\<close> the error
  thrown together with the state at the moment of the throw. The first two guards return
  without touching anything.
\<close>

definition onResults :: "Results \<Rightarrow> App \<Rightarrow> (error \<times> App) + App" where
  "onResults results s =
     (case overlayCanvasRef s of
        None \<Rightarrow> Inr s
      | Some ov \<Rightarrow>
     (case canvasRef s of
        None \<Rightarrow> Inr s
      | Some cv \<Rightarrow>
     if \<not> context2d ov then Inr s
     else
       let s1 = overlay [Save,
                         ClearRect 0 0 (real (canvas_width ov)) (real (canvas_height ov)),
                         Translate (real (canvas_width ov)) 0,
                         Scale (- 1) 1] s
       in
       (case detectedHand results of
          Some landmarks \<Rightarrow>
            let s2 = overlay [DrawConnectors landmarks ''#00FF00'' 2,
                              DrawLandmarks landmarks ''#FF0000'' 1 2] s1
            in
            (case at_index landmarks 8 of
               None \<Rightarrow> Inl (TypeError, s2)
             | Some indexTip \<Rightarrow>
            let px = fl (fl (1 - x indexTip) * real (canvas_width ov));
                py = fl (y indexTip * real (canvas_height ov))
            in
            (case at_index landmarks 6 of
               None \<Rightarrow> Inl (TypeError, s2)
             | Some indexPip \<Rightarrow>
            let isIndexExtended = y indexTip < y indexPip in
            (case at_index landmarks 12 of
               None \<Rightarrow> Inl (TypeError, s2)
             | Some middleTip \<Rightarrow>
            let isMiddleExtended = y middleTip < y indexPip;
                s3 = (if isIndexExtended \<and> \<not> isMiddleExtended then
                        drawLive
                          (s2\<lparr>gestureMode := DRAWING,
                              currentPathRef := currentPathRef s2 @ [\<lparr>x = px, y = py\<rparr>]\<rparr>)
                      else if isIndexExtended \<and> isMiddleExtended then
                        finishPath (s2\<lparr>gestureMode := HOVERING\<rparr>)
                      else
                        finishPath (s2\<lparr>gestureMode := IDLE\<rparr>))
            in Inr (overlay [BeginPath, Arc px py (fl (widthRef s3 + 2)) 0 (fl (2 * Math_PI)),
                             FillStyle (colorRef s3), Fill, Restore] s3))))
        | None \<Rightarrow>
            Inr (overlay [Restore] (finishPath (s1\<lparr>gestureMode := IDLE\<rparr>))))))"

section \<open>The manual clear action (clearCanvas, lines 201 to 206)\<close>

definition clearCanvas :: "App \<Rightarrow> App" where
  "clearCanvas s =
     (renderMainCanvas (s\<lparr>pathsRef := [], currentPathRef := []\<rparr>))\<lparr>analysis := None\<rparr>"

section \<open>Runs of the component\<close>

text \<open>
  What can happen to the component between two renders: a result of the estimator arrives,
  the user picks a colour or a width, or presses the clear button. A result whose
  processing throws leaves the state as it was at the throw (the frame callback of lines
  166 to 174 catches and logs). A finalization on its own is included as an event, so that
  statements about all runs also cover finalizations at arbitrary moments.
\<close>

datatype event =
    Frame Results
  | PickColor string
  | PickWidth real
  | ClearButton
  | Finalize

fun handle :: "event \<Rightarrow> App \<Rightarrow> App" where
  "handle (Frame results) s =
     (case onResults results s of Inl (e, s') \<Rightarrow> s' | Inr s' \<Rightarrow> s')"
| "handle (PickColor c) s = setBrushColor c s"
| "handle (PickWidth w) s = setBrushWidth w s"
| "handle ClearButton s = clearCanvas s"
| "handle Finalize s = finishPath s"

fun run :: "event list \<Rightarrow> App \<Rightarrow> App" where
  "run [] s = s"
| "run (e # es) s = run es (handle e s)"

section \<open>Vocabulary for the properties\<close>

text \<open>
  The canvas position computed from the index fingertip (lines 111 and 112), and the mode
  that lines 100 to 138 set for a frame (\<open>None\<close> when reading the landmarks throws).
  \<open>drawingAt\<close> says that a frame is classified as drawing with a given position.
\<close>

definition tipPosition :: "Canvas \<Rightarrow> Landmark list \<Rightarrow> Point" where
  "tipPosition ov landmarks =
     \<lparr>x = fl (fl (1 - x (landmarks ! 8)) * real (canvas_width ov)),
      y = fl (y (landmarks ! 8) * real (canvas_height ov))\<rparr>"

definition frameMode :: "Results \<Rightarrow> GestureMode option" where
  "frameMode results =
     (case detectedHand results of
        None \<Rightarrow> Some IDLE
      | Some landmarks \<Rightarrow>
          if length landmarks \<le> 12 then None
          else if y (landmarks ! 8) < y (landmarks ! 6) \<and> \<not> y (landmarks ! 12) < y (landmarks ! 6)
            then Some DRAWING
          else if y (landmarks ! 8) < y (landmarks ! 6) \<and> y (landmarks ! 12) < y (landmarks ! 6)
            then Some HOVERING
          else Some IDLE)"

definition drawingAt :: "Canvas \<Rightarrow> Results \<Rightarrow> Point \<Rightarrow> bool" where
  "drawingAt ov results p =
     (frameMode results = Some DRAWING \<and>
      (case detectedHand results of
         None \<Rightarrow> False
       | Some landmarks \<Rightarrow> tipPosition ov landmarks = p))"

section \<open>Sample inputs\<close>

text \<open>
  A mounted component with canvases of 1280 by 720 pixels and one with canvases of 1024 by
  1024 pixels, a hand of 21 landmarks with given index fingertip, index joint height and
  middle fingertip height, and a frame without hand.
\<close>

definition sampleCanvas :: Canvas where
  "sampleCanvas = \<lparr>canvas_width = 1280, canvas_height = 720, context2d = True\<rparr>"

definition sampleApp :: App where
  "sampleApp = initial (Some sampleCanvas) (Some sampleCanvas)"

definition squareCanvas :: Canvas where
  "squareCanvas = \<lparr>canvas_width = 1024, canvas_height = 1024, context2d = True\<rparr>"

definition squareApp :: App where
  "squareApp = initial (Some squareCanvas) (Some squareCanvas)"

definition sampleHand :: "real \<Rightarrow> real \<Rightarrow> real \<Rightarrow> real \<Rightarrow> Landmark list" where
  "sampleHand tipX tipY pipY middleY =
     (replicate 21 \<lparr>x = 0, y = 0, z = 0\<rparr>)
       [6 := \<lparr>x = 0, y = pipY, z = 0\<rparr>,
        8 := \<lparr>x = tipX, y = tipY, z = 0\<rparr>,
        12 := \<lparr>x = 0, y = middleY, z = 0\<rparr>]"

definition sampleFrame :: "real \<Rightarrow> real \<Rightarrow> real \<Rightarrow> real \<Rightarrow> Results" where
  "sampleFrame tipX tipY pipY middleY =
     \<lparr>multiHandLandmarks = Some [sampleHand tipX tipY pipY middleY]\<rparr>"

definition noHand :: Results where
  "noHand = \<lparr>multiHandLandmarks = Some []\<rparr>"

section \<open>Facts about the rounding\<close>

lemma round53_double: "0 < r \<Longrightarrow> round53 (2 * r) = 2 * round53 r"
proof -
  assume pos: "0 < r"
  show ?thesis
  proof (cases "r < 2 ^ 52")
    case True
    then have "round53 r = round53 (2 * r) / 2"
      using pos by (subst round53.simps) simp
    then show ?thesis by simp
  next
    case False
    then have "round53 (2 * r) = 2 * round53 (2 * r / 2)"
      using pos by (subst round53.simps) simp
    then show ?thesis by simp
  qed
qed

lemma round53_scale: "0 < r \<Longrightarrow> round53 (r * 2 ^ k) = round53 r * 2 ^ k"
proof (induction k)
  case 0
  then show ?case by simp
next
  case (Suc k)
  have "r * 2 ^ Suc k = 2 * (r * 2 ^ k)" by simp
  then have "round53 (r * 2 ^ Suc k) = round53 (2 * (r * 2 ^ k))" by (rule arg_cong)
  also have "\<dots> = 2 * round53 (r * 2 ^ k)" using Suc.prems by (simp add: round53_double)
  finally show ?case using Suc by simp
qed

lemma round53_normal:
  "2 ^ 52 \<le> r \<Longrightarrow> r < 2 ^ 53 \<Longrightarrow> round53 r = of_int (roundTiesToEven r)"
  by (subst round53.simps) simp

lemma fl_normal:
  assumes "1 / 2 ^ 1022 \<le> r"
  shows "0 < r" and "fl r = round53 r"
proof -
  have "(0::real) < 1 / 2 ^ 1022" by simp
  with assms show pos: "0 < r" by linarith
  show "fl r = round53 r" using assms pos by (simp add: fl_def)
qed

text \<open>Evaluating \<open>fl\<close> at a positive value whose binary exponent is known.\<close>

lemma fl_scaled:
  assumes "1 / 2 ^ 1022 \<le> r" and "2 ^ 52 \<le> r * 2 ^ k" and "r * 2 ^ k < 2 ^ 53"
  shows "fl r = of_int (roundTiesToEven (r * 2 ^ k)) / 2 ^ k"
proof -
  note n = fl_normal [OF assms(1)]
  have "round53 r * 2 ^ k = of_int (roundTiesToEven (r * 2 ^ k))"
    using round53_scale [OF n(1), of k] round53_normal [OF assms(2,3)] by simp
  then have "round53 r = of_int (roundTiesToEven (r * 2 ^ k)) / 2 ^ k"
    by (simp add: field_simps)
  then show ?thesis using n(2) by simp
qed

text \<open>Integers below \<open>2 ^ 53\<close> and their quotients by powers of two are not changed.\<close>

lemma roundTiesToEven_of_int: "roundTiesToEven (of_int m) = m"
  by (simp add: roundTiesToEven_def)

lemma round53_of_int:
  "0 < m \<Longrightarrow> m < 2 ^ 53 \<Longrightarrow> round53 (of_int m) = of_int m"
proof (induction "nat (2 ^ 52 - m)" arbitrary: m rule: less_induct)
  case less
  show ?case
  proof (cases "m < 2 ^ 52")
    case True
    have "nat (2 ^ 52 - 2 * m) < nat (2 ^ 52 - m)" using True less.prems by simp
    moreover have "0 < 2 * m" "2 * m < 2 ^ 53" using True less.prems by simp_all
    ultimately have "round53 (of_int (2 * m)) = of_int (2 * m)" by (rule less.hyps)
    moreover have "round53 (2 * of_int m) = 2 * round53 (of_int m)"
      using less.prems by (simp add: round53_double)
    ultimately show ?thesis by simp
  next
    case False
    then have "(2::real) ^ 52 \<le> of_int m"
      by (metis not_less of_int_le_iff of_int_numeral of_int_power)
    moreover have "of_int m < (2::real) ^ 53"
      using less.prems(2) by (metis of_int_less_iff of_int_numeral of_int_power)
    ultimately show ?thesis
      by (simp add: round53_normal roundTiesToEven_of_int)
  qed
qed

lemma fl_dyadic:
  assumes "0 < m" and "m < 2 ^ 53" and "k \<le> 1022"
  shows "fl (of_int m / 2 ^ k) = of_int m / 2 ^ k"
proof -
  have pos: "(0::real) < of_int m / 2 ^ k" using assms(1) by simp
  have "round53 (of_int m / 2 ^ k * 2 ^ k) = round53 (of_int m / 2 ^ k) * 2 ^ k"
    using pos by (rule round53_scale)
  then have "round53 (of_int m / 2 ^ k) * 2 ^ k = of_int m"
    using round53_of_int [OF assms(1,2)] by simp
  then have r: "round53 (of_int m / 2 ^ k) = of_int m / 2 ^ k"
    by (simp add: field_simps)
  have p: "(2::real) ^ k \<le> 2 ^ 1022" by (rule power_increasing [OF assms(3)]) simp
  have one: "(1::real) \<le> of_int m" using assms(1) by simp
  have z: "(0::real) \<le> of_int m" "(0::real) < 2 ^ k" using assms(1) by simp_all
  have "(1::real) / 2 ^ 1022 \<le> of_int m / 2 ^ k"
    by (rule frac_le [OF z(1) one z(2) p])
  from fl_normal(2) [OF this] r show ?thesis by (simp only:)
qed

lemma fl_samples [simp]:
  "fl (1 / 2) = 1 / 2" "fl (3 / 4) = 3 / 4"
  "fl (5 / 1024) = 5 / 1024" "fl (3 / 512) = 3 / 512" "fl (7 / 1024) = 7 / 1024"
  "fl 5 = 5" "fl 6 = 6" "fl 7 = 7" "fl 90 = 90" "fl 180 = 180" "fl 640 = 640" "fl 960 = 960"
  using fl_dyadic [of 1 1] fl_dyadic [of 3 2]
    fl_dyadic [of 5 10] fl_dyadic [of 3 9] fl_dyadic [of 7 10]
    fl_dyadic [of 5 0] fl_dyadic [of 6 0] fl_dyadic [of 7 0] fl_dyadic [of 90 0]
    fl_dyadic [of 180 0] fl_dyadic [of 640 0] fl_dyadic [of 960 0]
  by simp_all

text \<open>
  The literal \<^verbatim>\<open>0.3\<close> denotes the binary64 value nearest to three tenths, and the
  program's arithmetic takes it to 896 on a canvas 1280 pixels wide. The rounding is
  visible at \<^verbatim>\<open>0.7\<close>, where the result is one unit in the last place above 384.
\<close>

lemma fl_three_tenths: "fl (3 / 10) = 5404319552844595 / 2 ^ 54"
  by (subst fl_scaled [where k = 54]) (simp_all add: roundTiesToEven_def)

lemma fl_one_minus_three_tenths: "fl (1 - 5404319552844595 / 2 ^ 54) = 6305039478318694 / 2 ^ 53"
  by (subst fl_scaled [where k = 53]) (simp_all add: roundTiesToEven_def)

lemma fl_mirror_three_tenths: "fl (fl (1 - fl (3 / 10)) * 1280) = 896"
proof -
  have b: "fl (6305039478318694 / 2 ^ 53 * 1280) = 896"
    by (subst fl_scaled [where k = 43]) (simp_all add: roundTiesToEven_def)
  show ?thesis by (simp only: fl_three_tenths fl_one_minus_three_tenths b)
qed

lemma fl_mirror_seven_tenths: "fl (fl (1 - fl (7 / 10)) * 1280) = 384 + 1 / 2 ^ 44"
proof -
  have c: "fl (7 / 10) = 6305039478318694 / 2 ^ 53"
    by (subst fl_scaled [where k = 53]) (simp_all add: roundTiesToEven_def)
  have a: "fl (1 - 6305039478318694 / 2 ^ 53) = 2702159776422298 / 2 ^ 53"
    by (subst fl_scaled [where k = 54]) (simp_all add: roundTiesToEven_def)
  have b: "fl (2702159776422298 / 2 ^ 53 * 1280) = 384 + 1 / 2 ^ 44"
    by (subst fl_scaled [where k = 44]) (simp_all add: roundTiesToEven_def)
  show ?thesis by (simp only: c a b)
qed

section \<open>Basic facts\<close>

lemma renderMainCanvas_refs [simp]:
  "pathsRef (renderMainCanvas s) = pathsRef s"
  "currentPathRef (renderMainCanvas s) = currentPathRef s"
  "colorRef (renderMainCanvas s) = colorRef s"
  "widthRef (renderMainCanvas s) = widthRef s"
  "gestureMode (renderMainCanvas s) = gestureMode s"
  "canvasRef (renderMainCanvas s) = canvasRef s"
  "overlayCanvasRef (renderMainCanvas s) = overlayCanvasRef s"
  "overlayCalls (renderMainCanvas s) = overlayCalls s"
  by (simp_all add: renderMainCanvas_def split: option.splits)

lemma overlay_refs [simp]:
  "pathsRef (overlay cs s) = pathsRef s"
  "currentPathRef (overlay cs s) = currentPathRef s"
  "colorRef (overlay cs s) = colorRef s"
  "widthRef (overlay cs s) = widthRef s"
  "gestureMode (overlay cs s) = gestureMode s"
  "canvasRef (overlay cs s) = canvasRef s"
  "overlayCanvasRef (overlay cs s) = overlayCanvasRef s"
  "canvasCalls (overlay cs s) = canvasCalls s"
  "overlayCalls (overlay cs s) = overlayCalls s @ cs"
  by (simp_all add: overlay_def)

lemma drawLive_refs [simp]:
  "pathsRef (drawLive s) = pathsRef s"
  "currentPathRef (drawLive s) = currentPathRef s"
  "colorRef (drawLive s) = colorRef s"
  "widthRef (drawLive s) = widthRef s"
  "gestureMode (drawLive s) = gestureMode s"
  "canvasRef (drawLive s) = canvasRef s"
  "overlayCanvasRef (drawLive s) = overlayCanvasRef s"
  "overlayCalls (drawLive s) = overlayCalls s"
  by (simp_all add: drawLive_def Let_def split: option.splits)

lemma finishPath_refs [simp]:
  "colorRef (finishPath s) = colorRef s"
  "widthRef (finishPath s) = widthRef s"
  "gestureMode (finishPath s) = gestureMode s"
  "canvasRef (finishPath s) = canvasRef s"
  "overlayCanvasRef (finishPath s) = overlayCanvasRef s"
  "overlayCalls (finishPath s) = overlayCalls s"
  "currentPathRef (finishPath s) = []"
  by (simp_all add: finishPath_def)

lemma finishPath_paths:
  "pathsRef (finishPath s) =
     (if currentPathRef s = [] then pathsRef s
      else pathsRef s @ [\<lparr>points = currentPathRef s, color = colorRef s, width = widthRef s\<rparr>])"
  by (simp add: finishPath_def)

lemma at_index_Some [simp]: "i < length xs \<Longrightarrow> at_index xs i = Some (xs ! i)"
  by (simp add: at_index_def)

lemma at_index_None [simp]: "\<not> i < length xs \<Longrightarrow> at_index xs i = None"
  by (simp add: at_index_def)

lemma onResults_hand:
  assumes "overlayCanvasRef s = Some ov" "context2d ov" "canvasRef s = Some cv"
    and "detectedHand results = Some lm" "12 < length lm"
  shows "onResults results s =
     Inr (let s2 = overlay [Save,
                         ClearRect 0 0 (real (canvas_width ov)) (real (canvas_height ov)),
                         Translate (real (canvas_width ov)) 0,
                         Scale (- 1) 1, DrawConnectors lm ''#00FF00'' 2,
                              DrawLandmarks lm ''#FF0000'' 1 2] s;
              s3 = (if y (lm ! 8) < y (lm ! 6) \<and> \<not> y (lm ! 12) < y (lm ! 6) then
                        drawLive
                          (s2\<lparr>gestureMode := DRAWING,
                              currentPathRef := currentPathRef s2 @ [tipPosition ov lm]\<rparr>)
                      else if y (lm ! 8) < y (lm ! 6) \<and> y (lm ! 12) < y (lm ! 6) then
                        finishPath (s2\<lparr>gestureMode := HOVERING\<rparr>)
                      else
                        finishPath (s2\<lparr>gestureMode := IDLE\<rparr>))
          in overlay [BeginPath,
                      Arc (x (tipPosition ov lm)) (y (tipPosition ov lm))
                          (fl (widthRef s + 2)) 0 (fl (2 * Math_PI)),
                             FillStyle (colorRef s), Fill, Restore] s3)"
  using assms by (simp add: onResults_def Let_def tipPosition_def overlay_def)

lemma onResults_nohand:
  assumes "overlayCanvasRef s = Some ov" "context2d ov" "canvasRef s = Some cv"
    and "detectedHand results = None"
  shows "onResults results s =
     Inr (overlay [Restore] (finishPath (overlay [Save,
                         ClearRect 0 0 (real (canvas_width ov)) (real (canvas_height ov)),
                         Translate (real (canvas_width ov)) 0,
                         Scale (- 1) 1] s\<lparr>gestureMode := IDLE\<rparr>)))"
  using assms by (simp add: onResults_def Let_def)

lemma handle_drawing:
  assumes "overlayCanvasRef s = Some ov" "context2d ov" "canvasRef s = Some cv"
    and "drawingAt ov r p"
  shows "onResults r s = Inr (handle (Frame r) s)"
    and "currentPathRef (handle (Frame r) s) = currentPathRef s @ [p]"
    and "pathsRef (handle (Frame r) s) = pathsRef s"
    and "colorRef (handle (Frame r) s) = colorRef s"
    and "widthRef (handle (Frame r) s) = widthRef s"
    and "canvasRef (handle (Frame r) s) = canvasRef s"
    and "overlayCanvasRef (handle (Frame r) s) = overlayCanvasRef s"
    and "gestureMode (handle (Frame r) s) = DRAWING"
proof -
  from assms(4) obtain lm where lm: "detectedHand r = Some lm" "12 < length lm"
    "y (lm ! 8) < y (lm ! 6)" "\<not> y (lm ! 12) < y (lm ! 6)" "tipPosition ov lm = p"
    by (auto simp: drawingAt_def frameMode_def split: option.splits if_splits)
  note eq = onResults_hand [OF assms(1-3) lm(1,2)]
  show "onResults r s = Inr (handle (Frame r) s)" by (simp add: eq)
  show "currentPathRef (handle (Frame r) s) = currentPathRef s @ [p]"
    using lm by (simp add: eq Let_def)
  show "pathsRef (handle (Frame r) s) = pathsRef s" using lm by (simp add: eq Let_def)
  show "colorRef (handle (Frame r) s) = colorRef s" using lm by (simp add: eq Let_def)
  show "widthRef (handle (Frame r) s) = widthRef s" using lm by (simp add: eq Let_def)
  show "canvasRef (handle (Frame r) s) = canvasRef s" using lm by (simp add: eq Let_def)
  show "overlayCanvasRef (handle (Frame r) s) = overlayCanvasRef s"
    using lm by (simp add: eq Let_def)
  show "gestureMode (handle (Frame r) s) = DRAWING" using lm by (simp add: eq Let_def)
qed

lemma handle_other:
  assumes "overlayCanvasRef s = Some ov" "context2d ov" "canvasRef s = Some cv"
    and "frameMode r = Some m" "m \<noteq> DRAWING"
  shows "onResults r s = Inr (handle (Frame r) s) \<and>
    currentPathRef (handle (Frame r) s) = [] \<and>
    pathsRef (handle (Frame r) s) = pathsRef (finishPath s) \<and>
    colorRef (handle (Frame r) s) = colorRef s \<and>
    widthRef (handle (Frame r) s) = widthRef s \<and>
    canvasRef (handle (Frame r) s) = canvasRef s \<and>
    overlayCanvasRef (handle (Frame r) s) = overlayCanvasRef s \<and>
    gestureMode (handle (Frame r) s) = m"
proof (cases "detectedHand r")
  case None
  with assms(4,5) have "m = IDLE" by (simp add: frameMode_def)
  then show ?thesis
    by (simp add: onResults_nohand [OF assms(1-3) None] finishPath_paths)
next
  case (Some lm)
  with assms(4) have len: "12 < length lm"
    by (simp add: frameMode_def split: if_splits)
  from Some assms(4,5) len
  have nd: "\<not> (y (lm ! 8) < y (lm ! 6) \<and> \<not> y (lm ! 12) < y (lm ! 6))"
    by (auto simp: frameMode_def split: if_splits)
  from Some assms(4) len nd
  have m: "m = (if y (lm ! 8) < y (lm ! 6) \<and> y (lm ! 12) < y (lm ! 6) then HOVERING else IDLE)"
    by (auto simp: frameMode_def split: if_splits)
  show ?thesis
    using nd m by (simp add: onResults_hand [OF assms(1-3) Some len] Let_def finishPath_paths)
qed

lemma sampleApp_refs [simp]:
  "overlayCanvasRef sampleApp = Some sampleCanvas"
  "canvasRef sampleApp = Some sampleCanvas"
  "pathsRef sampleApp = []"
  "currentPathRef sampleApp = []"
  "colorRef sampleApp = ''#ffffff''"
  "widthRef sampleApp = 5"
  "context2d sampleCanvas"
  "canvas_width sampleCanvas = 1280"
  "canvas_height sampleCanvas = 720"
  by (simp_all add: sampleApp_def initial_def sampleCanvas_def)

lemma squareApp_refs [simp]:
  "overlayCanvasRef squareApp = Some squareCanvas"
  "canvasRef squareApp = Some squareCanvas"
  "pathsRef squareApp = []"
  "currentPathRef squareApp = []"
  "colorRef squareApp = ''#ffffff''"
  "widthRef squareApp = 5"
  "context2d squareCanvas"
  "canvas_width squareCanvas = 1024"
  "canvas_height squareCanvas = 1024"
  by (simp_all add: squareApp_def initial_def squareCanvas_def)

lemma sampleHand_simps [simp]:
  "length (sampleHand tx ty py my) = 21"
  "sampleHand tx ty py my ! 6 = \<lparr>x = 0, y = py, z = 0\<rparr>"
  "sampleHand tx ty py my ! 8 = \<lparr>x = tx, y = ty, z = 0\<rparr>"
  "sampleHand tx ty py my ! 12 = \<lparr>x = 0, y = my, z = 0\<rparr>"
  by (simp_all add: sampleHand_def)

lemma sampleFrame_hand [simp]:
  "detectedHand (sampleFrame tx ty py my) = Some (sampleHand tx ty py my)"
  "detectedHand noHand = None"
  by (simp_all add: detectedHand_def sampleFrame_def noHand_def)

lemma frameMode_sample [simp]:
  "frameMode (sampleFrame tx ty py my) =
     Some (if ty < py \<and> \<not> my < py then DRAWING
           else if ty < py \<and> my < py then HOVERING else IDLE)"
  "frameMode noHand = Some IDLE"
  by (simp_all add: frameMode_def)

lemma drawingAt_sample [simp]:
  "drawingAt ov (sampleFrame tx ty py my) p \<longleftrightarrow>
     ty < py \<and> \<not> my < py \<and>
     p = \<lparr>x = fl (fl (1 - tx) * real (canvas_width ov)),
          y = fl (ty * real (canvas_height ov))\<rparr>"
  by (auto simp: drawingAt_def tipPosition_def)

lemma run_drawing:
  assumes "list_all2 (drawingAt ov) fs ps"
    and "overlayCanvasRef s = Some ov" "context2d ov" "canvasRef s = Some cv"
  shows "currentPathRef (run (map Frame fs) s) = currentPathRef s @ ps
       \<and> pathsRef (run (map Frame fs) s) = pathsRef s
       \<and> colorRef (run (map Frame fs) s) = colorRef s
       \<and> widthRef (run (map Frame fs) s) = widthRef s
       \<and> canvasRef (run (map Frame fs) s) = canvasRef s
       \<and> overlayCanvasRef (run (map Frame fs) s) = overlayCanvasRef s"
  using assms
proof (induction fs ps arbitrary: s rule: list_all2_induct)
  case Nil
  then show ?case by simp
next
  case (Cons f p fs ps)
  note step = handle_drawing [OF Cons.prems(1) Cons.prems(2) Cons.prems(3) Cons.hyps(1)]
  have "overlayCanvasRef (handle (Frame f) s) = Some ov"
    "canvasRef (handle (Frame f) s) = Some cv"
    using step(6,7) Cons.prems by simp_all
  from Cons.IH [OF this(1) Cons.prems(2) this(2)] show ?case
    using step(2-7) by simp
qed

lemma finishPath_keeps_nonempty:
  "\<forall>p\<in>set (pathsRef s). points p \<noteq> [] \<Longrightarrow> \<forall>p\<in>set (pathsRef (finishPath s)). points p \<noteq> []"
  by (simp add: finishPath_paths)

lemma onResults_paths:
  "onResults r s = Inr s' \<or> onResults r s = Inl (e, s') \<Longrightarrow>
     pathsRef s' = pathsRef s \<or> pathsRef s' = pathsRef (finishPath s)"
  by (auto simp: onResults_def Let_def finishPath_paths split: option.splits if_splits)

lemma handle_keeps_nonempty:
  assumes "\<forall>p\<in>set (pathsRef s). points p \<noteq> []"
  shows "\<forall>p\<in>set (pathsRef (handle e s)). points p \<noteq> []"
proof (cases e)
  case (Frame r)
  obtain s' where "handle (Frame r) s = s'"
    and "(\<exists>e. onResults r s = Inl (e, s')) \<or> onResults r s = Inr s'"
    by (cases "onResults r s") auto
  then have "pathsRef (handle (Frame r) s) = pathsRef s
           \<or> pathsRef (handle (Frame r) s) = pathsRef (finishPath s)"
    using onResults_paths by blast
  then show ?thesis using assms Frame finishPath_keeps_nonempty [OF assms] by auto
next
  case (PickColor c)
  then show ?thesis using assms by (simp add: setBrushColor_def)
next
  case (PickWidth w)
  then show ?thesis using assms by (simp add: setBrushWidth_def)
next
  case ClearButton
  then show ?thesis by (simp add: clearCanvas_def)
next
  case Finalize
  then show ?thesis using finishPath_keeps_nonempty [OF assms] by simp
qed

lemma run_keeps_nonempty:
  "\<forall>p\<in>set (pathsRef s). points p \<noteq> [] \<Longrightarrow> \<forall>p\<in>set (pathsRef (run es s)). points p \<noteq> []"
proof (induction es arbitrary: s)
  case Nil
  then show ?case by simp
next
  case (Cons e es)
  from Cons.IH [OF handle_keeps_nonempty [OF Cons.prems]] show ?case by simp
qed

lemma single_tap_run:
  "pathsRef (run [Frame (sampleFrame (1019 / 1024) (5 / 1024) (1 / 2) (3 / 4)), Frame noHand]
               squareApp)
     = [\<lparr>points = [\<lparr>x = 5, y = 5\<rparr>], color = ''#ffffff'', width = 5\<rparr>]"
proof -
  let ?f = "sampleFrame (1019 / 1024) (5 / 1024) (1 / 2) (3 / 4)"
  have d: "drawingAt squareCanvas ?f \<lparr>x = 5, y = 5\<rparr>" by simp
  note a = handle_drawing [OF squareApp_refs(1) squareApp_refs(7) squareApp_refs(2) d]
  have t: "overlayCanvasRef (handle (Frame ?f) squareApp) = Some squareCanvas"
    "canvasRef (handle (Frame ?f) squareApp) = Some squareCanvas"
    using a(6,7) by simp_all
  have i: "frameMode noHand = Some IDLE" "IDLE \<noteq> DRAWING" by simp_all
  note b = handle_other [OF t(1) squareApp_refs(7) t(2) i]
  have "pathsRef (handle (Frame noHand) (handle (Frame ?f) squareApp))
          = pathsRef (finishPath (handle (Frame ?f) squareApp))"
    using b by blast
  also have "\<dots> = [\<lparr>points = [\<lparr>x = 5, y = 5\<rparr>], color = ''#ffffff'', width = 5\<rparr>]"
    using a(2-5) by (simp add: finishPath_paths)
  finally show ?thesis by (simp del: handle.simps)
qed

lemma renderPath_short: "length (points p) < 2 \<Longrightarrow> renderPath p = []"
  by (simp add: renderPath_def)

lemma renderMainCanvas_calls:
  "canvasCalls (renderMainCanvas s) =
     (case canvasRef s of
        None \<Rightarrow> canvasCalls s
      | Some cv \<Rightarrow>
          if context2d cv
          then canvasCalls s
               @ ClearRect 0 0 (real (canvas_width cv)) (real (canvas_height cv))
               # concat (map renderPath (pathsRef s))
          else canvasCalls s)"
  by (simp add: renderMainCanvas_def split: option.splits)

section \<open>The claims\<close>

subsection \<open>Classification of a frame\<close>

text \<open>
  C1: when the component is mounted, a frame with a detected hand (a landmark set that has
  the indices 6, 8 and 12) is processed without error and sets the mode DRAWING when the
  index fingertip is above the index joint and the middle fingertip is not, HOVERING when
  both fingertips are above the joint, and IDLE otherwise; a frame without a detected hand
  sets the mode IDLE. Above means a smaller \<open>y\<close>.
\<close>

theorem classifier_mode:
  assumes "overlayCanvasRef s = Some ov" and "context2d ov" and "canvasRef s = Some cv"
  shows "(detectedHand results = Some lm \<and> 12 < length lm \<longrightarrow>
            (\<exists>s'. onResults results s = Inr s' \<and>
                  gestureMode s' =
                    (if y (lm ! 8) < y (lm ! 6) \<and> y (lm ! 12) \<ge> y (lm ! 6) then DRAWING
                     else if y (lm ! 8) < y (lm ! 6) \<and> y (lm ! 12) < y (lm ! 6) then HOVERING
                     else IDLE)))
       \<and> (detectedHand results = None \<longrightarrow>
            (\<exists>s'. onResults results s = Inr s' \<and> gestureMode s' = IDLE))"
proof (intro conjI impI)
  assume h: "detectedHand results = Some lm \<and> 12 < length lm"
  then have hand: "detectedHand results = Some lm" and len: "12 < length lm" by simp_all
  show "\<exists>s'. onResults results s = Inr s' \<and>
          gestureMode s' =
            (if y (lm ! 8) < y (lm ! 6) \<and> y (lm ! 12) \<ge> y (lm ! 6) then DRAWING
             else if y (lm ! 8) < y (lm ! 6) \<and> y (lm ! 12) < y (lm ! 6) then HOVERING
             else IDLE)"
    by (simp add: onResults_hand [OF assms hand len] Let_def not_less)
next
  assume none: "detectedHand results = None"
  show "\<exists>s'. onResults results s = Inr s' \<and> gestureMode s' = IDLE"
    by (simp add: onResults_nohand [OF assms none])
qed

theorem classifier_mode_witness:
  "(\<exists>s'. onResults (sampleFrame (3 / 8) (1 / 4) (1 / 2) (5 / 8)) sampleApp = Inr s' \<and> gestureMode s' = DRAWING)
   \<and> (\<exists>s'. onResults (sampleFrame (3 / 8) (1 / 4) (1 / 2) (3 / 8)) sampleApp = Inr s' \<and> gestureMode s' = HOVERING)
   \<and> (\<exists>s'. onResults (sampleFrame (3 / 8) (3 / 4) (1 / 2) (3 / 8)) sampleApp = Inr s' \<and> gestureMode s' = IDLE)
   \<and> (\<exists>s'. onResults noHand sampleApp = Inr s' \<and> gestureMode s' = IDLE)"
  using classifier_mode [of sampleApp sampleCanvas sampleCanvas "sampleFrame (3 / 8) (1 / 4) (1 / 2) (5 / 8)"
      "sampleHand (3 / 8) (1 / 4) (1 / 2) (5 / 8)"]
    classifier_mode [of sampleApp sampleCanvas sampleCanvas "sampleFrame (3 / 8) (1 / 4) (1 / 2) (3 / 8)"
      "sampleHand (3 / 8) (1 / 4) (1 / 2) (3 / 8)"]
    classifier_mode [of sampleApp sampleCanvas sampleCanvas "sampleFrame (3 / 8) (3 / 4) (1 / 2) (3 / 8)"
      "sampleHand (3 / 8) (3 / 4) (1 / 2) (3 / 8)"]
    classifier_mode [of sampleApp sampleCanvas sampleCanvas noHand "[]"]
  by simp

subsection \<open>Reset\<close>

text \<open>
  C7: whatever the live stroke and the drawing surface hold, the clear action leaves both
  empty.
\<close>

theorem reset_clears:
  "pathsRef (clearCanvas s) = [] \<and> currentPathRef (clearCanvas s) = []"
  by (simp add: clearCanvas_def)

subsection \<open>Finalizing an empty live stroke\<close>

text \<open>
  C8: finalizing while the live stroke is empty changes nothing: the drawing surface keeps
  its strokes and the live stroke stays empty (the whole state is unchanged).
\<close>

theorem finalize_empty_noop:
  "currentPathRef s = [] \<Longrightarrow> finishPath s = s"
  by (simp add: finishPath_def)

theorem finalize_empty_noop_witness:
  "currentPathRef sampleApp = [] \<and> finishPath sampleApp = sampleApp
     \<and> pathsRef (finishPath sampleApp) = []"
  using finalize_empty_noop [of sampleApp] by simp

subsection \<open>A run of drawing frames and its finalization\<close>

text \<open>
  C3: in a mounted component whose live stroke is empty, \<open>N \<ge> 1\<close> consecutive frames
  classified as drawing, with the positions \<open>ps\<close>, leave a live stroke of length \<open>N\<close>
  (the positions, in order) and the drawing surface as it was; the next frame with another
  mode is processed without error, appends exactly one stroke, which has these \<open>N\<close>
  points, to the drawing surface, and leaves the live stroke empty.
\<close>

theorem drawing_run_then_finalize:
  assumes "overlayCanvasRef s = Some ov" and "context2d ov" and "canvasRef s = Some cv"
    and "currentPathRef s = []"
    and "fs \<noteq> []" and "list_all2 (drawingAt ov) fs ps"
    and "frameMode g = Some m" and "m \<noteq> DRAWING"
  shows "currentPathRef (run (map Frame fs) s) = ps
       \<and> length (currentPathRef (run (map Frame fs) s)) = length fs
       \<and> pathsRef (run (map Frame fs) s) = pathsRef s
       \<and> (\<exists>s'. onResults g (run (map Frame fs) s) = Inr s'
               \<and> pathsRef s' = pathsRef s @ [\<lparr>points = ps, color = colorRef s, width = widthRef s\<rparr>]
               \<and> length ps = length fs
               \<and> currentPathRef s' = [])"
proof -
  let ?t = "run (map Frame fs) s"
  note d = run_drawing [OF assms(6) assms(1-3)]
  have len: "length ps = length fs"
    using assms(6) by (simp add: list_all2_lengthD)
  have ne: "ps \<noteq> []" using assms(5) len by auto
  have t: "overlayCanvasRef ?t = Some ov" "canvasRef ?t = Some cv"
    using d assms(1,3) by simp_all
  note o = handle_other [OF t(1) assms(2) t(2) assms(7,8)]
  have "pathsRef (handle (Frame g) ?t)
          = pathsRef s @ [\<lparr>points = ps, color = colorRef s, width = widthRef s\<rparr>]"
    using o d ne assms(4) by (simp add: finishPath_paths)
  moreover have "currentPathRef (handle (Frame g) ?t) = []" using o by simp
  moreover have "onResults g ?t = Inr (handle (Frame g) ?t)" using o by simp
  ultimately have "\<exists>s'. onResults g ?t = Inr s'
               \<and> pathsRef s' = pathsRef s @ [\<lparr>points = ps, color = colorRef s, width = widthRef s\<rparr>]
               \<and> length ps = length fs
               \<and> currentPathRef s' = []"
    using len by blast
  moreover have "currentPathRef ?t = ps" using d assms(4) by simp
  moreover have "pathsRef ?t = pathsRef s" using d by simp
  ultimately show ?thesis using len by simp
qed

theorem drawing_run_then_finalize_witness:
  "currentPathRef (run (map Frame [sampleFrame (1 / 2) (1 / 4) (1 / 2) (5 / 8),
       sampleFrame (1 / 4) (1 / 8) (1 / 2) (5 / 8)])
                    sampleApp)
     = [\<lparr>x = 640, y = 180\<rparr>, \<lparr>x = 960, y = 90\<rparr>]
   \<and> (\<exists>s'. onResults (sampleFrame (1 / 2) (1 / 4) (1 / 2) (3 / 8))
              (run (map Frame [sampleFrame (1 / 2) (1 / 4) (1 / 2) (5 / 8),
       sampleFrame (1 / 4) (1 / 8) (1 / 2) (5 / 8)])
                 sampleApp) = Inr s'
           \<and> pathsRef s' = [\<lparr>points = [\<lparr>x = 640, y = 180\<rparr>, \<lparr>x = 960, y = 90\<rparr>],
                               color = ''#ffffff'', width = 5\<rparr>]
           \<and> currentPathRef s' = [])"
  using drawing_run_then_finalize [of sampleApp sampleCanvas sampleCanvas
      "[sampleFrame (1 / 2) (1 / 4) (1 / 2) (5 / 8),
       sampleFrame (1 / 4) (1 / 8) (1 / 2) (5 / 8)]"
      "[\<lparr>x = 640, y = 180\<rparr>, \<lparr>x = 960, y = 90\<rparr>]"
      "sampleFrame (1 / 2) (1 / 4) (1 / 2) (3 / 8)" HOVERING]
  by simp

subsection \<open>Strokes on the drawing surface\<close>

text \<open>
  C2, as stated, fails: a single drawing frame followed by a frame without a hand appends a
  stroke of exactly one point to the drawing surface.
\<close>

theorem single_point_stroke_appended:
  "length (pathsRef squareApp) = 0
   \<and> length (pathsRef (run [Frame (sampleFrame (1019 / 1024) (5 / 1024) (1 / 2) (3 / 4)), Frame noHand]
                         squareApp)) = 1
   \<and> length (points (pathsRef (run [Frame (sampleFrame (1019 / 1024) (5 / 1024) (1 / 2) (3 / 4)),
                                     Frame noHand] squareApp) ! 0)) = 1"
  by (simp add: single_tap_run del: run.simps)

text \<open>
  C2, amended: in every state the component reaches from its first render, by any sequence
  of frames, finalizations, style changes and clear actions, every stroke on the drawing
  surface has at least one point.
\<close>

theorem surface_strokes_nonempty:
  "\<forall>p\<in>set (pathsRef (run es (initial cv ov))). 1 \<le> length (points p)"
proof -
  have "\<forall>p\<in>set (pathsRef (initial cv ov)). points p \<noteq> []"
    by (simp add: initial_def)
  from run_keeps_nonempty [OF this, of es] show ?thesis
    by (auto simp: Suc_le_eq)
qed

theorem surface_strokes_nonempty_witness:
  "1 \<le> length (points (pathsRef (run [Frame (sampleFrame (1019 / 1024) (5 / 1024) (1 / 2) (3 / 4)),
                                        Frame noHand]
                                   (initial (Some squareCanvas) (Some squareCanvas))) ! 0))"
proof -
  let ?es = "[Frame (sampleFrame (1019 / 1024) (5 / 1024) (1 / 2) (3 / 4)), Frame noHand]"
  let ?s = "initial (Some squareCanvas) (Some squareCanvas)"
  have "pathsRef (run ?es ?s) ! 0 \<in> set (pathsRef (run ?es ?s))"
    using single_tap_run by (simp add: squareApp_def del: run.simps)
  with surface_strokes_nonempty [of ?es "Some squareCanvas" "Some squareCanvas"]
  show ?thesis by blast
qed

subsection \<open>The scenario of two strokes\<close>

text \<open>
  C4: in a mounted component with an empty drawing surface and an empty live stroke, the
  five frames drawing at (5,5), idle, drawing at (6,6), drawing at (7,7), idle leave exactly
  two strokes on the drawing surface; the first has the single point (5,5) and the second
  has exactly the two points (6,6) and (7,7).
\<close>

theorem two_strokes_scenario:
  assumes "overlayCanvasRef s = Some ov" and "context2d ov" and "canvasRef s = Some cv"
    and "pathsRef s = []" and "currentPathRef s = []"
    and "drawingAt ov f1 \<lparr>x = 5, y = 5\<rparr>"
    and "frameMode f2 = Some IDLE"
    and "drawingAt ov f3 \<lparr>x = 6, y = 6\<rparr>"
    and "drawingAt ov f4 \<lparr>x = 7, y = 7\<rparr>"
    and "frameMode f5 = Some IDLE"
  shows "pathsRef (run [Frame f1, Frame f2, Frame f3, Frame f4, Frame f5] s)
           = [\<lparr>points = [\<lparr>x = 5, y = 5\<rparr>], color = colorRef s, width = widthRef s\<rparr>,
              \<lparr>points = [\<lparr>x = 6, y = 6\<rparr>, \<lparr>x = 7, y = 7\<rparr>],
               color = colorRef s, width = widthRef s\<rparr>]
       \<and> length (pathsRef (run [Frame f1, Frame f2, Frame f3, Frame f4, Frame f5] s)) = 2
       \<and> points (pathsRef (run [Frame f1, Frame f2, Frame f3, Frame f4, Frame f5] s) ! 1)
           = [\<lparr>x = 6, y = 6\<rparr>, \<lparr>x = 7, y = 7\<rparr>]
       \<and> currentPathRef (run [Frame f1, Frame f2, Frame f3, Frame f4, Frame f5] s) = []"
proof -
  have idle: "IDLE \<noteq> DRAWING" by simp
  let ?s1 = "handle (Frame f1) s"
  note a1 = handle_drawing [OF assms(1-3) assms(6)]
  have m1: "overlayCanvasRef ?s1 = Some ov" "canvasRef ?s1 = Some cv"
    using a1(6,7) assms(1,3) by simp_all
  let ?s2 = "handle (Frame f2) ?s1"
  note a2 = handle_other [OF m1(1) assms(2) m1(2) assms(7) idle]
  have m2: "overlayCanvasRef ?s2 = Some ov" "canvasRef ?s2 = Some cv"
    using a2 m1 by simp_all
  have p2: "pathsRef ?s2 = [\<lparr>points = [\<lparr>x = 5, y = 5\<rparr>], color = colorRef s, width = widthRef s\<rparr>]"
    and c2: "currentPathRef ?s2 = []" "colorRef ?s2 = colorRef s" "widthRef ?s2 = widthRef s"
    using a2 a1(2-5) assms(4,5) by (simp_all add: finishPath_paths)
  let ?s3 = "handle (Frame f3) ?s2"
  note a3 = handle_drawing [OF m2(1) assms(2) m2(2) assms(8)]
  have m3: "overlayCanvasRef ?s3 = Some ov" "canvasRef ?s3 = Some cv"
    using a3(6,7) m2 by simp_all
  let ?s4 = "handle (Frame f4) ?s3"
  note a4 = handle_drawing [OF m3(1) assms(2) m3(2) assms(9)]
  have m4: "overlayCanvasRef ?s4 = Some ov" "canvasRef ?s4 = Some cv"
    using a4(6,7) m3 by simp_all
  have c4: "currentPathRef ?s4 = [\<lparr>x = 6, y = 6\<rparr>, \<lparr>x = 7, y = 7\<rparr>]"
    "pathsRef ?s4 = [\<lparr>points = [\<lparr>x = 5, y = 5\<rparr>], color = colorRef s, width = widthRef s\<rparr>]"
    "colorRef ?s4 = colorRef s" "widthRef ?s4 = widthRef s"
    using a3(2-5) a4(2-5) p2 c2 by simp_all
  let ?s5 = "handle (Frame f5) ?s4"
  note a5 = handle_other [OF m4(1) assms(2) m4(2) assms(10) idle]
  have p5: "pathsRef ?s5
           = [\<lparr>points = [\<lparr>x = 5, y = 5\<rparr>], color = colorRef s, width = widthRef s\<rparr>,
              \<lparr>points = [\<lparr>x = 6, y = 6\<rparr>, \<lparr>x = 7, y = 7\<rparr>],
               color = colorRef s, width = widthRef s\<rparr>]"
    and c5: "currentPathRef ?s5 = []"
    using a5 c4 by (simp_all add: finishPath_paths)
  have r: "run [Frame f1, Frame f2, Frame f3, Frame f4, Frame f5] s = ?s5"
    by (simp del: handle.simps)
  show ?thesis unfolding r using p5 c5 by simp
qed

theorem two_strokes_scenario_witness:
  "pathsRef (run [Frame (sampleFrame (1019 / 1024) (5 / 1024) (1 / 2) (3 / 4)),
                  Frame noHand,
                  Frame (sampleFrame (509 / 512) (3 / 512) (1 / 2) (3 / 4)),
                  Frame (sampleFrame (1017 / 1024) (7 / 1024) (1 / 2) (3 / 4)),
                  Frame (sampleFrame (1 / 2) (3 / 4) (1 / 2) (3 / 4))] squareApp)
     = [\<lparr>points = [\<lparr>x = 5, y = 5\<rparr>], color = ''#ffffff'', width = 5\<rparr>,
        \<lparr>points = [\<lparr>x = 6, y = 6\<rparr>, \<lparr>x = 7, y = 7\<rparr>], color = ''#ffffff'', width = 5\<rparr>]"
  using two_strokes_scenario [of squareApp squareCanvas squareCanvas
      "sampleFrame (1019 / 1024) (5 / 1024) (1 / 2) (3 / 4)"
      noHand
      "sampleFrame (509 / 512) (3 / 512) (1 / 2) (3 / 4)"
      "sampleFrame (1017 / 1024) (7 / 1024) (1 / 2) (3 / 4)"
      "sampleFrame (1 / 2) (3 / 4) (1 / 2) (3 / 4)"]
  by (simp del: run.simps)

subsection \<open>Style of a finalized stroke\<close>

text \<open>
  C5: finalizing a non-empty live stroke appends a stroke whose colour and width are the
  style current at that moment. In particular, when the colour and the width are changed
  while the stroke is in progress and the stroke is finalized afterwards, the whole stroke
  carries the new colour and width, whatever the style was before.
\<close>

theorem style_bound_at_finalize:
  assumes "currentPathRef s \<noteq> []"
  shows "pathsRef (finishPath s)
           = pathsRef s @ [\<lparr>points = currentPathRef s, color = colorRef s, width = widthRef s\<rparr>]
       \<and> pathsRef (finishPath (setBrushWidth w (setBrushColor c s)))
           = pathsRef s @ [\<lparr>points = currentPathRef s, color = c, width = w\<rparr>]"
  using assms by (simp add: finishPath_paths setBrushColor_def setBrushWidth_def)

theorem style_bound_at_finalize_witness:
  "pathsRef (finishPath (setBrushWidth 9 (setBrushColor ''#ff0000''
       (sampleApp\<lparr>currentPathRef := [\<lparr>x = 1, y = 2\<rparr>, \<lparr>x = 3, y = 4\<rparr>]\<rparr>))))
     = [\<lparr>points = [\<lparr>x = 1, y = 2\<rparr>, \<lparr>x = 3, y = 4\<rparr>], color = ''#ff0000'', width = 9\<rparr>]"
  using style_bound_at_finalize
    [of "sampleApp\<lparr>currentPathRef := [\<lparr>x = 1, y = 2\<rparr>, \<lparr>x = 3, y = 4\<rparr>]\<rparr>" 9 "''#ff0000''"]
  by simp

subsection \<open>Leaving the drawing mode\<close>

text \<open>
  C6: when a mounted component has processed a frame and the mode it set is not DRAWING
  (HOVERING, IDLE, or IDLE for want of a hand), the live stroke is empty, and a live stroke
  that was not empty before the frame has been appended to the drawing surface as one
  stroke in the course of that frame.
\<close>

theorem non_drawing_frame_finalizes:
  assumes "overlayCanvasRef s = Some ov" and "context2d ov" and "canvasRef s = Some cv"
    and "onResults results s = Inr s'" and "gestureMode s' \<noteq> DRAWING"
  shows "currentPathRef s' = []
       \<and> pathsRef s' =
           (if currentPathRef s = [] then pathsRef s
            else pathsRef s
                 @ [\<lparr>points = currentPathRef s, color = colorRef s, width = widthRef s\<rparr>])"
proof (cases "detectedHand results")
  case None
  from assms(4) show ?thesis
    by (auto simp: onResults_nohand [OF assms(1-3) None] finishPath_paths)
next
  case (Some lm)
  have len: "12 < length lm"
  proof (rule ccontr)
    assume "\<not> 12 < length lm"
    then have "\<exists>e. onResults results s = Inl e"
      using assms(1-3) Some
      by (simp add: onResults_def Let_def at_index_def split: option.splits)
    with assms(4) show False by auto
  qed
  from assms(4,5) show ?thesis
    by (auto simp: onResults_hand [OF assms(1-3) Some len] Let_def finishPath_paths
             split: if_splits)
qed

theorem non_drawing_frame_finalizes_witness:
  "currentPathRef (handle (Frame (sampleFrame (1 / 2) (1 / 4) (1 / 2) (3 / 8)))
      (sampleApp\<lparr>currentPathRef := [\<lparr>x = 1, y = 2\<rparr>, \<lparr>x = 3, y = 4\<rparr>]\<rparr>)) = []
   \<and> pathsRef (handle (Frame (sampleFrame (1 / 2) (1 / 4) (1 / 2) (3 / 8)))
      (sampleApp\<lparr>currentPathRef := [\<lparr>x = 1, y = 2\<rparr>, \<lparr>x = 3, y = 4\<rparr>]\<rparr>))
     = [\<lparr>points = [\<lparr>x = 1, y = 2\<rparr>, \<lparr>x = 3, y = 4\<rparr>], color = ''#ffffff'', width = 5\<rparr>]"
proof -
  let ?s = "sampleApp\<lparr>currentPathRef := [\<lparr>x = 1, y = 2\<rparr>, \<lparr>x = 3, y = 4\<rparr>]\<rparr>"
  let ?f = "sampleFrame (1 / 2) (1 / 4) (1 / 2) (3 / 8)"
  have m: "overlayCanvasRef ?s = Some sampleCanvas" "context2d sampleCanvas"
    "canvasRef ?s = Some sampleCanvas"
    by simp_all
  have f: "frameMode ?f = Some HOVERING" "HOVERING \<noteq> DRAWING" by simp_all
  note o = handle_other [OF m f]
  have r: "onResults ?f ?s = Inr (handle (Frame ?f) ?s)" using o by blast
  have g: "gestureMode (handle (Frame ?f) ?s) \<noteq> DRAWING" using o by auto
  from non_drawing_frame_finalizes [OF m r g] show ?thesis by simp
qed

subsection \<open>The cursor position\<close>

text \<open>
  C9: for a frame with a detected hand, processed by a mounted component, the cursor is
  drawn on the overlay as a circle whose centre has the x coordinate
  (1 - indexTip.x) * width and the y coordinate indexTip.y * height, computed in the
  arithmetic of the program (each operation rounded to binary64), width and height being
  those of the overlay canvas; a frame classified as drawing appends this very point to the
  live stroke. For indexTip.x the number 0.3 (the binary64 value that the literal denotes)
  and a canvas 1280 pixels wide, the x coordinate is exactly 896. The coordinates are taken
  where no operation overflows, which is where \<open>fl\<close> is the arithmetic of the program.
\<close>

theorem cursor_position:
  assumes "overlayCanvasRef s = Some ov" and "context2d ov" and "canvasRef s = Some cv"
    and "detectedHand results = Some lm" and "12 < length lm"
    and "finite64 (1 - x (lm ! 8))"
    and "finite64 (fl (1 - x (lm ! 8)) * real (canvas_width ov))"
    and "finite64 (y (lm ! 8) * real (canvas_height ov))"
    and "finite64 (widthRef s + 2)"
  shows "\<exists>s'. onResults results s = Inr s'
          \<and> overlayCalls s' =
                overlayCalls s
                @ [Save, ClearRect 0 0 (real (canvas_width ov)) (real (canvas_height ov)),
                   Translate (real (canvas_width ov)) 0, Scale (- 1) 1,
                   DrawConnectors lm ''#00FF00'' 2, DrawLandmarks lm ''#FF0000'' 1 2,
                   BeginPath,
                   Arc (fl (fl (1 - x (lm ! 8)) * real (canvas_width ov)))
                       (fl (y (lm ! 8) * real (canvas_height ov)))
                       (fl (widthRef s + 2)) 0 (fl (2 * Math_PI)),
                   FillStyle (colorRef s), Fill, Restore]
          \<and> (gestureMode s' = DRAWING \<longrightarrow>
                 currentPathRef s' =
                   currentPathRef s
                   @ [\<lparr>x = fl (fl (1 - x (lm ! 8)) * real (canvas_width ov)),
                       y = fl (y (lm ! 8) * real (canvas_height ov))\<rparr>])
          \<and> (x (lm ! 8) = fl (3 / 10) \<and> canvas_width ov = 1280 \<longrightarrow>
                 Arc 896 (fl (y (lm ! 8) * real (canvas_height ov)))
                     (fl (widthRef s + 2)) 0 (fl (2 * Math_PI))
                   \<in> set (overlayCalls s'))"
  by (simp add: onResults_hand [OF assms(1-5)] Let_def tipPosition_def fl_mirror_three_tenths)

theorem cursor_position_witness:
  "\<exists>s'. onResults (sampleFrame (fl (3 / 10)) (1 / 4) (1 / 2) (3 / 4)) sampleApp = Inr s'
      \<and> overlayCalls s' =
            [Save, ClearRect 0 0 1280 720, Translate 1280 0, Scale (- 1) 1,
             DrawConnectors (sampleHand (fl (3 / 10)) (1 / 4) (1 / 2) (3 / 4)) ''#00FF00'' 2,
             DrawLandmarks (sampleHand (fl (3 / 10)) (1 / 4) (1 / 2) (3 / 4)) ''#FF0000'' 1 2,
             BeginPath, Arc 896 180 7 0 (fl (2 * Math_PI)), FillStyle ''#ffffff'', Fill,
             Restore]
      \<and> currentPathRef s' = [\<lparr>x = 896, y = 180\<rparr>]"
proof -
  let ?f = "sampleFrame (fl (3 / 10)) (1 / 4) (1 / 2) (3 / 4)"
  let ?lm = "sampleHand (fl (3 / 10)) (1 / 4) (1 / 2) (3 / 4)"
  have x8: "x (?lm ! 8) = fl (3 / 10)" by simp
  have a: "fl (1 - x (?lm ! 8)) = 6305039478318694 / 2 ^ 53"
    unfolding x8 by (simp only: fl_three_tenths fl_one_minus_three_tenths)
  have r: "finite64 (1 - x (?lm ! 8))"
    "finite64 (fl (1 - x (?lm ! 8)) * real (canvas_width sampleCanvas))"
    "finite64 (y (?lm ! 8) * real (canvas_height sampleCanvas))"
    "finite64 (widthRef sampleApp + 2)"
    unfolding a unfolding x8 fl_three_tenths by (simp_all add: finite64_def)
  from cursor_position [OF sampleApp_refs(1) sampleApp_refs(7) sampleApp_refs(2)
      sampleFrame_hand(1) _ r]
  obtain s' where s': "onResults ?f sampleApp = Inr s'"
    and calls: "overlayCalls s' =
            [Save, ClearRect 0 0 1280 720, Translate 1280 0, Scale (- 1) 1,
             DrawConnectors ?lm ''#00FF00'' 2, DrawLandmarks ?lm ''#FF0000'' 1 2,
             BeginPath, Arc 896 180 7 0 (fl (2 * Math_PI)), FillStyle ''#ffffff'', Fill,
             Restore]"
    and path: "gestureMode s' = DRAWING \<longrightarrow> currentPathRef s' = [\<lparr>x = 896, y = 180\<rparr>]"
    by (auto simp: sampleApp_def initial_def fl_mirror_three_tenths)
  have d: "drawingAt sampleCanvas ?f \<lparr>x = 896, y = 180\<rparr>"
    by (simp add: fl_mirror_three_tenths)
  from handle_drawing(1,8) [OF sampleApp_refs(1) sampleApp_refs(7) sampleApp_refs(2) d] s'
  have "gestureMode s' = DRAWING" by (simp del: handle.simps)
  with s' calls path show ?thesis by simp
qed

subsection \<open>Rendering of short strokes\<close>

text \<open>
  C10: a stroke of fewer than two points contributes no call to the rendering of the
  persistent layer: the calls issued on the main canvas are the same with the stroke on the
  drawing surface, at any place, as without it.
\<close>

theorem renderer_skips_short_strokes:
  assumes "length (points p) < 2"
  shows "renderPath p = []
       \<and> canvasCalls (renderMainCanvas (s\<lparr>pathsRef := before @ p # after\<rparr>))
           = canvasCalls (renderMainCanvas (s\<lparr>pathsRef := before @ after\<rparr>))"
  using renderPath_short [OF assms] by (simp add: renderMainCanvas_calls split: option.splits)

theorem renderer_skips_short_strokes_witness:
  "canvasCalls (renderMainCanvas
      (sampleApp\<lparr>pathsRef :=
         [\<lparr>points = [\<lparr>x = 1, y = 2\<rparr>, \<lparr>x = 3, y = 4\<rparr>], color = ''#ffffff'', width = 5\<rparr>,
          \<lparr>points = [\<lparr>x = 5, y = 5\<rparr>], color = ''#ff0000'', width = 9\<rparr>]\<rparr>))
     = [ClearRect 0 0 1280 720,
        StrokeStyle ''#ffffff'', LineWidth 5, LineCap ''round'', LineJoin ''round'',
        BeginPath, MoveTo 1 2, LineTo 3 4, Stroke]"
proof -
  have "canvasCalls (renderMainCanvas
      (sampleApp\<lparr>pathsRef :=
         [\<lparr>points = [\<lparr>x = 1, y = 2\<rparr>, \<lparr>x = 3, y = 4\<rparr>], color = ''#ffffff'', width = 5\<rparr>]
         @ []\<rparr>))
     = [ClearRect 0 0 1280 720,
        StrokeStyle ''#ffffff'', LineWidth 5, LineCap ''round'', LineJoin ''round'',
        BeginPath, MoveTo 1 2, LineTo 3 4, Stroke]"
    by (simp add: renderMainCanvas_calls renderPath_def sampleApp_def initial_def upt_rec)
  with renderer_skips_short_strokes
    [where p = "\<lparr>points = [\<lparr>x = 5, y = 5\<rparr>], color = ''#ff0000'', width = 9\<rparr>"
       and s = sampleApp
       and before = "[\<lparr>points = [\<lparr>x = 1, y = 2\<rparr>, \<lparr>x = 3, y = 4\<rparr>],
                       color = ''#ffffff'', width = 5\<rparr>]"
       and after = "[]"]
  show ?thesis by simp
qed

end
